theory Spec2Isabelle
  imports Complex_Main "HOL-Library.Sublist"
begin

section \<open>Python values, exceptions and syntax trees\<close>

text \<open>
  The calculator of \<^verbatim>\<open>calculator_python_adv.py\<close> evaluates a string by parsing it with
  Python's \<^verbatim>\<open>ast.parse\<close> and walking the tree (\<^verbatim>\<open>safe_eval\<close>). The model below follows
  the source function by function. Exceptions are values: every function that can raise
  returns \<open>error + 'a\<close>, with \<open>Inl\<close> the exception.
\<close>

datatype error =
    SyntaxError
  | KeyError
  | ValueError string
  | TypeError
  | ZeroDivisionError
  | OverflowError

text \<open>
  A Python float is an IEEE 754 double: a finite value (a rational number), an infinity or
  a NaN. The two zeros are identified: no function modelled here tells them apart.
\<close>

datatype pyfloat = Fin rat | PInf | NInf | NaN

text \<open>
  The callables of the registry: the built-ins \<^verbatim>\<open>abs\<close> and \<^verbatim>\<open>pow\<close>, the three functions
  the source defines, and the functions of the \<^verbatim>\<open>math\<close> module, by name.
\<close>

datatype func = Builtin_abs | Builtin_pow | Sin_deg | Cos_deg | Tan_deg | Math string

datatype pyval =
    VInt int
  | VBool bool
  | VFloat pyfloat
  | VComplex pyfloat pyfloat
  | VStr string
  | VBytes string
  | VNone
  | VEllipsis
  | VFunc func
  | VTuple "pyval list"

text \<open>
  The operator classes of the \<^verbatim>\<open>ast\<close> module (\<^verbatim>\<open>type(node.op)\<close>), binary and unary, and
  the functions of the \<^verbatim>\<open>operator\<close> module that \<^verbatim>\<open>ALLOWED_OPERATORS\<close> maps them to.
\<close>

datatype op_class =
    Add | Sub | Mult | MatMult | Div | Mod | Pow_op | LShift | RShift
  | BitOr | BitXor | BitAnd | FloorDiv
  | Invert | Not_op | UAdd | USub

datatype op_fn = Op_add | Op_sub | Op_mul | Op_truediv | Op_pow | Op_mod | Op_neg | Op_pos

text \<open>
  The expression nodes of \<^verbatim>\<open>ast\<close>. The five classes \<^verbatim>\<open>_eval\<close> tests for are constructors
  of their own, with the fields of the Python classes (a call has positional arguments
  and keyword arguments); some of the other classes are named, and \<open>OtherNode\<close> stands
  for every remaining class, with its class name and children.
\<close>

datatype expr =
    Constant pyval
  | BinOp expr op_class expr
  | UnaryOp op_class expr
  | Call expr "expr list" "(string option \<times> expr) list"
  | Name string
  | Attribute expr string
  | Subscript expr expr
  | Starred expr
  | Tuple "expr list"
  | NamedExpr expr expr
  | OtherNode string "expr list"

text \<open>
  What the program takes from Python itself and does not define: the parser
  \<^verbatim>\<open>ast.parse(expr, mode='eval')\<close> (the body of the \<^verbatim>\<open>Expression\<close> it returns, or the
  exception it raises), and the library behaviour that is not refined below (the C
  library behind \<^verbatim>\<open>math\<close>, arithmetic on strings, complex numbers and tuples, \<^verbatim>\<open>str\<close> of a
  float), by the name of the operation and its arguments. Every function of the model
  takes this host as its first argument; the theorems hold for every host.
\<close>

record host =
  ast_parse :: "string \<Rightarrow> error + expr"
  lib :: "string \<Rightarrow> pyval list \<Rightarrow> error + pyval"

section \<open>Floats\<close>

text \<open>
  Rounding a rational to the nearest double, ties to even (IEEE 754 binary64: 53 bits of
  precision, least normal exponent \<open>-1022\<close>, overflow at \<open>2 ^ 1024\<close>). CPython rounds so
  when it divides two integers, converts an integer to a float and reads a float literal,
  and the processor rounds so in \<open>+\<close>, \<open>-\<close>, \<open>*\<close> and \<open>/\<close> of doubles.
\<close>

fun bit_length :: "nat \<Rightarrow> nat" where
  "bit_length n = (if n = 0 then 0 else Suc (bit_length (n div 2)))"

declare bit_length.simps [simp del]

definition pow2 :: "int \<Rightarrow> rat" where
  "pow2 k = (if 0 \<le> k then 2 ^ nat k else 1 / 2 ^ nat (- k))"

definition floor_log2 :: "rat \<Rightarrow> int" where
  \<comment> \<open>for \<open>0 < q\<close>: the \<open>e\<close> with \<open>2 ^ e \<le> q < 2 ^ (e + 1)\<close>\<close>
  "floor_log2 q =
     (if 1 \<le> q then int (bit_length (nat \<lfloor>q\<rfloor>)) - 1
      else - int (bit_length (nat \<lceil>1 / q\<rceil> - 1)))"

definition round_half_even :: "rat \<Rightarrow> int" where
  "round_half_even q =
     (let n = \<lfloor>q\<rfloor>; r = q - of_int n
      in if r < 1 / 2 then n else if 1 / 2 < r then n + 1
         else if even n then n else n + 1)"

definition round_double :: "rat \<Rightarrow> pyfloat" where
  "round_double q =
     (if q = 0 then Fin 0
      else let e = max (floor_log2 \<bar>q\<bar>) (- 1022);
               u = pow2 (e - 52);
               r = of_int (round_half_even (q / u)) * u
           in if pow2 1024 \<le> \<bar>r\<bar> then (if q < 0 then NInf else PInf) else Fin r)"

definition is_finite :: "pyfloat \<Rightarrow> bool" where
  "is_finite x = (case x of Fin _ \<Rightarrow> True | _ \<Rightarrow> False)"

definition int_to_double :: "int \<Rightarrow> error + pyfloat" where
  \<comment> \<open>\<^verbatim>\<open>PyLong_AsDouble\<close>: OverflowError, int too large to convert to float\<close>
  "int_to_double i =
     (let x = round_double (of_int i) in if is_finite x then Inr x else Inl OverflowError)"

definition fneg :: "pyfloat \<Rightarrow> pyfloat" where
  "fneg x = (case x of Fin q \<Rightarrow> Fin (- q) | PInf \<Rightarrow> NInf | NInf \<Rightarrow> PInf | NaN \<Rightarrow> NaN)"

definition fabs :: "pyfloat \<Rightarrow> pyfloat" where
  "fabs x = (case x of Fin q \<Rightarrow> Fin \<bar>q\<bar> | PInf \<Rightarrow> PInf | NInf \<Rightarrow> PInf | NaN \<Rightarrow> NaN)"

fun fadd :: "pyfloat \<Rightarrow> pyfloat \<Rightarrow> pyfloat" where
  "fadd NaN _ = NaN"
| "fadd _ NaN = NaN"
| "fadd (Fin a) (Fin b) = round_double (a + b)"
| "fadd PInf NInf = NaN"
| "fadd NInf PInf = NaN"
| "fadd PInf _ = PInf"
| "fadd NInf _ = NInf"
| "fadd (Fin a) y = y"

definition fsub :: "pyfloat \<Rightarrow> pyfloat \<Rightarrow> pyfloat" where
  "fsub x y = fadd x (fneg y)"

definition fsign :: "pyfloat \<Rightarrow> int" where
  \<comment> \<open>not meant for NaN\<close>
  "fsign x =
     (case x of
        Fin q \<Rightarrow> (if 0 < q then 1 else if q < 0 then - 1 else 0)
      | PInf \<Rightarrow> 1 | NInf \<Rightarrow> - 1 | NaN \<Rightarrow> 0)"

definition fmul :: "pyfloat \<Rightarrow> pyfloat \<Rightarrow> pyfloat" where
  "fmul x y =
     (case (x, y) of
        (Fin a, Fin b) \<Rightarrow> round_double (a * b)
      | _ \<Rightarrow> if x = NaN \<or> y = NaN \<or> fsign x * fsign y = 0 then NaN
             else if 0 < fsign x * fsign y then PInf else NInf)"

definition fdiv :: "pyfloat \<Rightarrow> pyfloat \<Rightarrow> error + pyfloat" where
  \<comment> \<open>\<^verbatim>\<open>float_div\<close>: a zero divisor raises, everything else is the IEEE quotient\<close>
  "fdiv x y =
     (if y = Fin 0 then Inl ZeroDivisionError
      else Inr (case (x, y) of
                  (Fin a, Fin b) \<Rightarrow> round_double (a / b)
                | (Fin a, _) \<Rightarrow> if y = NaN then NaN else Fin 0
                | _ \<Rightarrow> if x = NaN \<or> \<not> is_finite y then NaN
                       else if 0 < fsign x * fsign y then PInf else NInf))"

section \<open>Arithmetic: the functions of the \<^verbatim>\<open>operator\<close> module\<close>

definition and_then :: "error + 'a \<Rightarrow> ('a \<Rightarrow> error + 'b) \<Rightarrow> error + 'b" where
  "and_then r f = (case r of Inl e \<Rightarrow> Inl e | Inr v \<Rightarrow> f v)"

text \<open>
  The real numbers of Python: \<^verbatim>\<open>int\<close> (with \<^verbatim>\<open>bool\<close>, its subclass) and \<^verbatim>\<open>float\<close>.
  Arithmetic on two of them is modelled; on anything else it is the host's.
\<close>

datatype num = NI int | NF pyfloat

definition as_num :: "pyval \<Rightarrow> num option" where
  "as_num v =
     (case v of
        VInt i \<Rightarrow> Some (NI i)
      | VBool b \<Rightarrow> Some (NI (if b then 1 else 0))
      | VFloat x \<Rightarrow> Some (NF x)
      | _ \<Rightarrow> None)"

definition to_double :: "num \<Rightarrow> error + pyfloat" where
  "to_double n = (case n of NI i \<Rightarrow> int_to_double i | NF x \<Rightarrow> Inr x)"

definition arith ::
  "host \<Rightarrow> string \<Rightarrow> (int \<Rightarrow> int \<Rightarrow> error + pyval) \<Rightarrow>
   (pyfloat \<Rightarrow> pyfloat \<Rightarrow> error + pyval) \<Rightarrow> pyval \<Rightarrow> pyval \<Rightarrow> error + pyval" where
  "arith H name on_ints on_floats a b =
     (case (as_num a, as_num b) of
        (Some (NI x), Some (NI y)) \<Rightarrow> on_ints x y
      | (Some x, Some y) \<Rightarrow>
          and_then (to_double x) (\<lambda>u. and_then (to_double y) (\<lambda>v. on_floats u v))
      | _ \<Rightarrow> lib H name [a, b])"

definition py_add :: "host \<Rightarrow> pyval \<Rightarrow> pyval \<Rightarrow> error + pyval" where
  "py_add H = arith H ''operator.add''
     (\<lambda>x y. Inr (VInt (x + y))) (\<lambda>u v. Inr (VFloat (fadd u v)))"

definition py_sub :: "host \<Rightarrow> pyval \<Rightarrow> pyval \<Rightarrow> error + pyval" where
  "py_sub H = arith H ''operator.sub''
     (\<lambda>x y. Inr (VInt (x - y))) (\<lambda>u v. Inr (VFloat (fsub u v)))"

definition py_mul :: "host \<Rightarrow> pyval \<Rightarrow> pyval \<Rightarrow> error + pyval" where
  "py_mul H = arith H ''operator.mul''
     (\<lambda>x y. Inr (VInt (x * y))) (\<lambda>u v. Inr (VFloat (fmul u v)))"

definition int_truediv :: "int \<Rightarrow> int \<Rightarrow> error + pyval" where
  \<comment> \<open>\<^verbatim>\<open>long_true_divide\<close>: the correctly rounded quotient\<close>
  "int_truediv x y =
     (if y = 0 then Inl ZeroDivisionError
      else let r = round_double (of_int x / of_int y)
           in if is_finite r then Inr (VFloat r) else Inl OverflowError)"

definition py_truediv :: "host \<Rightarrow> pyval \<Rightarrow> pyval \<Rightarrow> error + pyval" where
  "py_truediv H = arith H ''operator.truediv''
     int_truediv (\<lambda>u v. and_then (fdiv u v) (\<lambda>r. Inr (VFloat r)))"

definition py_mod :: "host \<Rightarrow> pyval \<Rightarrow> pyval \<Rightarrow> error + pyval" where
  \<comment> \<open>the remainder has the sign of the divisor, in Python as in HOL\<close>
  "py_mod H a b =
     (case (as_num a, as_num b) of
        (Some (NI x), Some (NI y)) \<Rightarrow>
          if y = 0 then Inl ZeroDivisionError else Inr (VInt (x mod y))
      | _ \<Rightarrow> lib H ''operator.mod'' [a, b])"

definition float_pow :: "host \<Rightarrow> pyfloat \<Rightarrow> pyfloat \<Rightarrow> error + pyval" where
  \<comment> \<open>\<^verbatim>\<open>float_pow\<close> of CPython: the special cases it sorts out itself; the C library's
     \<^verbatim>\<open>pow\<close> and the complex power are the host's\<close>
  "float_pow H u v =
     (case (u, v) of
        (Fin x, Fin y) \<Rightarrow>
          if y = 0 then Inr (VFloat (Fin 1))
          else if x = 0 then
            (if y < 0 then Inl ZeroDivisionError else Inr (VFloat (Fin 0)))
          else if x < 0 \<and> of_int \<lfloor>y\<rfloor> \<noteq> y then
            lib H ''complex.__pow__'' [VFloat u, VFloat v]
          else if \<bar>x\<bar> = 1 then
            Inr (VFloat (Fin (if x < 0 \<and> odd \<lfloor>y\<rfloor> then - 1 else 1)))
          else lib H ''float.__pow__'' [VFloat u, VFloat v]
      | _ \<Rightarrow> lib H ''float.__pow__'' [VFloat u, VFloat v])"

definition int_pow :: "host \<Rightarrow> int \<Rightarrow> int \<Rightarrow> error + pyval" where
  \<comment> \<open>\<^verbatim>\<open>long_pow\<close>: a negative exponent goes to \<^verbatim>\<open>float_pow\<close>\<close>
  "int_pow H x y =
     (if 0 \<le> y then Inr (VInt (x ^ nat y))
      else and_then (int_to_double x) (\<lambda>u. and_then (int_to_double y) (\<lambda>v. float_pow H u v)))"

definition py_pow :: "host \<Rightarrow> pyval \<Rightarrow> pyval \<Rightarrow> error + pyval" where
  "py_pow H = arith H ''operator.pow'' (int_pow H) (float_pow H)"

definition py_neg :: "host \<Rightarrow> pyval \<Rightarrow> error + pyval" where
  "py_neg H a =
     (case as_num a of
        Some (NI x) \<Rightarrow> Inr (VInt (- x))
      | Some (NF u) \<Rightarrow> Inr (VFloat (fneg u))
      | None \<Rightarrow> lib H ''operator.neg'' [a])"

definition py_pos :: "host \<Rightarrow> pyval \<Rightarrow> error + pyval" where
  "py_pos H a =
     (case as_num a of
        Some (NI x) \<Rightarrow> Inr (VInt x)
      | Some (NF u) \<Rightarrow> Inr (VFloat u)
      | None \<Rightarrow> lib H ''operator.pos'' [a])"

definition py_abs :: "host \<Rightarrow> pyval \<Rightarrow> error + pyval" where
  "py_abs H a =
     (case as_num a of
        Some (NI x) \<Rightarrow> Inr (VInt \<bar>x\<bar>)
      | Some (NF u) \<Rightarrow> Inr (VFloat (fabs u))
      | None \<Rightarrow> lib H ''abs'' [a])"

definition call_operator :: "host \<Rightarrow> op_fn \<Rightarrow> pyval list \<Rightarrow> error + pyval" where
  \<comment> \<open>a function of \<^verbatim>\<open>operator\<close> applied to positional arguments; a wrong number of
     arguments is a TypeError\<close>
  "call_operator H f args =
     (case (f, args) of
        (Op_add, [a, b]) \<Rightarrow> py_add H a b
      | (Op_sub, [a, b]) \<Rightarrow> py_sub H a b
      | (Op_mul, [a, b]) \<Rightarrow> py_mul H a b
      | (Op_truediv, [a, b]) \<Rightarrow> py_truediv H a b
      | (Op_pow, [a, b]) \<Rightarrow> py_pow H a b
      | (Op_mod, [a, b]) \<Rightarrow> py_mod H a b
      | (Op_neg, [a]) \<Rightarrow> py_neg H a
      | (Op_pos, [a]) \<Rightarrow> py_pos H a
      | _ \<Rightarrow> Inl TypeError)"

section \<open>The trigonometric functions in degrees\<close>

text \<open>
  \<^verbatim>\<open>def round_small(val, eps=1e-10): return 0 if abs(val) < eps else val\<close>

  The default \<^verbatim>\<open>eps\<close> is the double nearest to \<open>10\<^sup>-\<^sup>1\<^sup>0\<close>, which is
  \<open>7737125245533627 / 2\<^sup>8\<^sup>6\<close>. The comparison of a number with a float is exact; a value
  that is not a real number cannot be compared with a float (TypeError).
\<close>

definition eps :: rat where
  "eps = 7737125245533627 / 2 ^ 86"

definition lt_float :: "pyval \<Rightarrow> rat \<Rightarrow> error + bool" where
  "lt_float a c =
     (case as_num a of
        Some (NI x) \<Rightarrow> Inr (of_int x < c)
      | Some (NF (Fin q)) \<Rightarrow> Inr (q < c)
      | Some (NF NInf) \<Rightarrow> Inr True
      | Some (NF _) \<Rightarrow> Inr False
      | None \<Rightarrow> Inl TypeError)"

definition round_small :: "host \<Rightarrow> pyval \<Rightarrow> error + pyval" where
  "round_small H val =
     and_then (py_abs H val) (\<lambda>a.
     and_then (lt_float a eps) (\<lambda>small.
     Inr (if small then VInt 0 else val)))"

text \<open>
  \<^verbatim>\<open>def sin_deg(x): return round_small(math.sin(math.radians(x)))\<close>, and the same for
  \<^verbatim>\<open>cos_deg\<close> and \<^verbatim>\<open>tan_deg\<close>. What \<^verbatim>\<open>math.radians\<close> and \<^verbatim>\<open>math.sin\<close> return is the
  host's.
\<close>

definition sin_deg :: "host \<Rightarrow> pyval \<Rightarrow> error + pyval" where
  "sin_deg H x =
     and_then (lib H ''math.radians'' [x]) (\<lambda>r.
     and_then (lib H ''math.sin'' [r]) (round_small H))"

definition cos_deg :: "host \<Rightarrow> pyval \<Rightarrow> error + pyval" where
  "cos_deg H x =
     and_then (lib H ''math.radians'' [x]) (\<lambda>r.
     and_then (lib H ''math.cos'' [r]) (round_small H))"

definition tan_deg :: "host \<Rightarrow> pyval \<Rightarrow> error + pyval" where
  "tan_deg H x =
     and_then (lib H ''math.radians'' [x]) (\<lambda>r.
     and_then (lib H ''math.tan'' [r]) (round_small H))"

section \<open>The registry \<^verbatim>\<open>ALLOWED_NAMES\<close> and the table \<^verbatim>\<open>ALLOWED_OPERATORS\<close>\<close>

text \<open>
  \<^verbatim>\<open>ALLOWED_NAMES = {k: getattr(math, k) for k in dir(math) if not k.startswith("_")}\<close>

  The public names of the \<^verbatim>\<open>math\<close> module, as CPython 3.11 has them: five float constants
  and the functions. (Other releases add or lack a few functions; \<^verbatim>\<open>sqrt\<close>, \<^verbatim>\<open>pi\<close>, \<^verbatim>\<open>inf\<close>
  and \<^verbatim>\<open>nan\<close>, which the theorems below mention, are in every release of Python 3.)
\<close>

definition math_constants :: "(string \<times> pyfloat) list" where
  "math_constants =
     [(''e'', Fin (6121026514868073 / 2 ^ 51)),
      (''inf'', PInf),
      (''nan'', NaN),
      (''pi'', Fin (884279719003555 / 2 ^ 48)),
      (''tau'', Fin (884279719003555 / 2 ^ 47))]"

definition math_functions :: "string list" where
  "math_functions =
     [''acos'', ''acosh'', ''asin'', ''asinh'', ''atan'', ''atan2'', ''atanh'', ''cbrt'',
      ''ceil'', ''comb'', ''copysign'', ''cos'', ''cosh'', ''degrees'', ''dist'', ''erf'',
      ''erfc'', ''exp'', ''exp2'', ''expm1'', ''fabs'', ''factorial'', ''floor'', ''fmod'',
      ''frexp'', ''fsum'', ''gamma'', ''gcd'', ''hypot'', ''isclose'', ''isfinite'',
      ''isinf'', ''isnan'', ''isqrt'', ''lcm'', ''ldexp'', ''lgamma'', ''log'', ''log10'',
      ''log1p'', ''log2'', ''modf'', ''nextafter'', ''perm'', ''pow'', ''prod'',
      ''radians'', ''remainder'', ''sin'', ''sinh'', ''sqrt'', ''tan'', ''tanh'', ''trunc'',
      ''ulp'']"

definition math_dict :: "string \<rightharpoonup> pyval" where
  "math_dict =
     map_of (map (\<lambda>(k, x). (k, VFloat x)) math_constants @
             map (\<lambda>k. (k, VFunc (Math k))) math_functions)"

text \<open>
  \<^verbatim>\<open>ALLOWED_NAMES.update({'abs': abs, 'pow': pow, 'sin': sin_deg, 'cos': cos_deg,
  'tan': tan_deg, 'sinh': math.sinh, ..., 'atanh': math.atanh})\<close>: the entries of
  the update replace those of the same name.
\<close>

definition ALLOWED_NAMES :: "string \<rightharpoonup> pyval" where
  "ALLOWED_NAMES =
     math_dict ++
     map_of
       [(''abs'', VFunc Builtin_abs),
        (''pow'', VFunc Builtin_pow),
        (''sin'', VFunc Sin_deg),
        (''cos'', VFunc Cos_deg),
        (''tan'', VFunc Tan_deg),
        (''sinh'', VFunc (Math ''sinh'')),
        (''cosh'', VFunc (Math ''cosh'')),
        (''tanh'', VFunc (Math ''tanh'')),
        (''asinh'', VFunc (Math ''asinh'')),
        (''acosh'', VFunc (Math ''acosh'')),
        (''atanh'', VFunc (Math ''atanh''))]"

definition ALLOWED_OPERATORS :: "op_class \<rightharpoonup> op_fn" where
  "ALLOWED_OPERATORS =
     map_of
       [(Add, Op_add), (Sub, Op_sub),
        (Mult, Op_mul), (Div, Op_truediv),
        (Pow_op, Op_pow), (Mod, Op_mod),
        (USub, Op_neg), (UAdd, Op_pos)]"

section \<open>Calling an entry of the registry\<close>

definition as_double :: "pyval \<Rightarrow> error + pyfloat" where
  \<comment> \<open>how a \<^verbatim>\<open>math\<close> function reads its argument: a real number, or TypeError\<close>
  "as_double v = (case as_num v of Some n \<Rightarrow> to_double n | None \<Rightarrow> Inl TypeError)"

definition math_sqrt :: "host \<Rightarrow> pyval list \<Rightarrow> error + pyval" where
  \<comment> \<open>\<^verbatim>\<open>math.sqrt\<close>: the square root of a negative number is a NaN in IEEE 754, which the
     module reports as ValueError (math domain error); the root itself is the host's\<close>
  "math_sqrt H args =
     (case args of
        [v] \<Rightarrow>
          and_then (as_double v) (\<lambda>x.
            case x of
              Fin q \<Rightarrow>
                if q < 0 then Inl (ValueError ''math domain error'')
                else lib H ''math.sqrt'' [VFloat x]
            | NInf \<Rightarrow> Inl (ValueError ''math domain error'')
            | _ \<Rightarrow> Inr (VFloat x))
      | _ \<Rightarrow> Inl TypeError)"

definition math_call :: "host \<Rightarrow> string \<Rightarrow> pyval list \<Rightarrow> error + pyval" where
  "math_call H name args =
     (if name = ''sqrt'' then math_sqrt H args else lib H (''math.'' @ name) args)"

definition call_value :: "host \<Rightarrow> pyval \<Rightarrow> pyval list \<Rightarrow> error + pyval" where
  \<comment> \<open>\<^verbatim>\<open>callee(*args)\<close>: a value that is not a function is not callable, and a function
     of the source called with another number of arguments than one raises TypeError\<close>
  "call_value H callee args =
     (case callee of
        VFunc Builtin_abs \<Rightarrow> (case args of [a] \<Rightarrow> py_abs H a | _ \<Rightarrow> Inl TypeError)
      | VFunc Builtin_pow \<Rightarrow>
          (case args of
             [a, b] \<Rightarrow> py_pow H a b
           | [a, b, m] \<Rightarrow> lib H ''pow'' [a, b, m]
           | _ \<Rightarrow> Inl TypeError)
      | VFunc Sin_deg \<Rightarrow> (case args of [x] \<Rightarrow> sin_deg H x | _ \<Rightarrow> Inl TypeError)
      | VFunc Cos_deg \<Rightarrow> (case args of [x] \<Rightarrow> cos_deg H x | _ \<Rightarrow> Inl TypeError)
      | VFunc Tan_deg \<Rightarrow> (case args of [x] \<Rightarrow> tan_deg H x | _ \<Rightarrow> Inl TypeError)
      | VFunc (Math name) \<Rightarrow> math_call H name args
      | _ \<Rightarrow> Inl TypeError)"

section \<open>\<^verbatim>\<open>safe_eval\<close>\<close>

text \<open>
  The inner function \<^verbatim>\<open>_eval\<close> of \<^verbatim>\<open>safe_eval\<close>, branch by branch and in the order of
  the source. It reads the two module-level dictionaries when it runs; here they are its
  arguments \<open>ops\<close> and \<open>names\<close>, and \<open>safe_eval\<close> passes \<open>ALLOWED_OPERATORS\<close> and
  \<open>ALLOWED_NAMES\<close>. In \<^verbatim>\<open>ALLOWED_OPERATORS[type(node.op)](_eval(node.left), ...)\<close> Python
  looks the operator up before it evaluates the operands, so a missing operator is a
  KeyError whatever the operands are. The keyword arguments of a call (\<^verbatim>\<open>node.keywords\<close>)
  are not read by the source. (The first branch of the source, for \<^verbatim>\<open>ast.Expression\<close>,
  is never taken: \<^verbatim>\<open>_eval\<close> starts at \<^verbatim>\<open>tree.body\<close>.) Python's recursion limit is not
  modelled.
\<close>

fun eval_node ::
    "host \<Rightarrow> (op_class \<rightharpoonup> op_fn) \<Rightarrow> (string \<rightharpoonup> pyval) \<Rightarrow> expr \<Rightarrow> error + pyval"
  and eval_args ::
    "host \<Rightarrow> (op_class \<rightharpoonup> op_fn) \<Rightarrow> (string \<rightharpoonup> pyval) \<Rightarrow> expr list \<Rightarrow> error + pyval list"
where
  "eval_node H ops names (Constant v) = Inr v"
| "eval_node H ops names (BinOp left op right) =
     (case ops op of
        None \<Rightarrow> Inl KeyError
      | Some f \<Rightarrow>
          (case eval_node H ops names left of
             Inl e \<Rightarrow> Inl e
           | Inr a \<Rightarrow>
               (case eval_node H ops names right of
                  Inl e \<Rightarrow> Inl e
                | Inr b \<Rightarrow> call_operator H f [a, b])))"
| "eval_node H ops names (UnaryOp op operand) =
     (case ops op of
        None \<Rightarrow> Inl KeyError
      | Some f \<Rightarrow>
          (case eval_node H ops names operand of
             Inl e \<Rightarrow> Inl e
           | Inr a \<Rightarrow> call_operator H f [a]))"
| "eval_node H ops names (Call func args keywords) =
     (case func of
        Name fid \<Rightarrow>
          (case names fid of
             Some callee \<Rightarrow>
               (case eval_args H ops names args of
                  Inl e \<Rightarrow> Inl e
                | Inr vs \<Rightarrow> call_value H callee vs)
           | None \<Rightarrow> Inl (ValueError ''Invalid function''))
      | _ \<Rightarrow> Inl (ValueError ''Invalid function''))"
| "eval_node H ops names (Name ident) =
     (case names ident of
        Some v \<Rightarrow> Inr v
      | None \<Rightarrow> Inl (ValueError ''Unsupported expression''))"
| "eval_node H ops names (Attribute _ _) = Inl (ValueError ''Unsupported expression'')"
| "eval_node H ops names (Subscript _ _) = Inl (ValueError ''Unsupported expression'')"
| "eval_node H ops names (Starred _) = Inl (ValueError ''Unsupported expression'')"
| "eval_node H ops names (Tuple _) = Inl (ValueError ''Unsupported expression'')"
| "eval_node H ops names (NamedExpr _ _) = Inl (ValueError ''Unsupported expression'')"
| "eval_node H ops names (OtherNode _ _) = Inl (ValueError ''Unsupported expression'')"
| "eval_args H ops names [] = Inr []"
| "eval_args H ops names (a # rest) =
     (case eval_node H ops names a of
        Inl e \<Rightarrow> Inl e
      | Inr v \<Rightarrow>
          (case eval_args H ops names rest of
             Inl e \<Rightarrow> Inl e
           | Inr vs \<Rightarrow> Inr (v # vs)))"

definition safe_eval :: "host \<Rightarrow> string \<Rightarrow> error + pyval" where
  "safe_eval H expr =
     (case ast_parse H expr of
        Inl e \<Rightarrow> Inl e
      | Inr tree \<Rightarrow> eval_node H ALLOWED_OPERATORS ALLOWED_NAMES tree)"

section \<open>\<^verbatim>\<open>evaluate_expression\<close>\<close>

text \<open>
  A Python string is modelled by its UTF-8 bytes. \<^verbatim>\<open>str.replace(old, new)\<close> replaces the
  occurrences of \<open>old\<close> from left to right, without overlap (and, for an empty \<open>old\<close>,
  inserts \<open>new\<close> before every character and at the end). On UTF-8 the replacement of the
  bytes of a character is the replacement of the character.
\<close>

function str_replace :: "string \<Rightarrow> string \<Rightarrow> string \<Rightarrow> string" where
  "str_replace old new [] = (if old = [] then new else [])"
| "str_replace old new (c # cs) =
     (if old = [] then new @ c # str_replace old new cs
      else if prefix old (c # cs) then new @ str_replace old new (drop (length old) (c # cs))
      else c # str_replace old new cs)"
  by pat_completeness auto
termination
  by (relation "measure (\<lambda>(old, new, s). length s)") auto

definition times_sign :: string where
  \<comment> \<open>the multiplication sign, U+00D7\<close>
  "times_sign = [CHR 0xC3, CHR 0x97]"

definition division_sign :: string where
  \<comment> \<open>the division sign, U+00F7\<close>
  "division_sign = [CHR 0xC3, CHR 0xB7]"

text \<open>
  \<^verbatim>\<open>expression = self.current_input.replace(times, '*').replace(division, '/')
  .replace('^', '**').replace('%', '/100')\<close>
\<close>

definition preprocess :: "string \<Rightarrow> string" where
  "preprocess s =
     str_replace ''%'' ''/100''
       (str_replace ''^'' ''**''
          (str_replace division_sign ''/''
             (str_replace times_sign ''*'' s)))"

text \<open>
  The \<open>evaluate\<close> of the specification: what the \<^verbatim>\<open>try\<close> block of
  \<^verbatim>\<open>evaluate_expression\<close> computes from the pending input, before it is displayed.
\<close>

definition evaluate :: "host \<Rightarrow> string \<Rightarrow> error + pyval" where
  "evaluate H s = safe_eval H (preprocess s)"

text \<open>
  \<^verbatim>\<open>str(result)\<close>: the decimal digits of an integer (CPython refuses to print more than
  4300 digits unless it is configured otherwise; longer integers are left to the host),
  a string itself; the text of a float, a complex number or a function is the host's.
\<close>

fun show_nat :: "nat \<Rightarrow> string" where
  "show_nat n =
     (if n < 10 then [''0123456789'' ! n]
      else show_nat (n div 10) @ [''0123456789'' ! (n mod 10)])"

declare show_nat.simps [simp del]

definition host_str :: "host \<Rightarrow> pyval \<Rightarrow> error + string" where
  "host_str H v =
     (case lib H ''str'' [v] of
        Inl e \<Rightarrow> Inl e
      | Inr (VStr s) \<Rightarrow> Inr s
      | Inr _ \<Rightarrow> Inl TypeError)"

definition py_str :: "host \<Rightarrow> pyval \<Rightarrow> error + string" where
  "py_str H v =
     (case v of
        VInt i \<Rightarrow>
          (let ds = show_nat (nat \<bar>i\<bar>)
           in if length ds \<le> 4300 then Inr (if i < 0 then CHR ''-'' # ds else ds)
              else host_str H v)
      | VBool b \<Rightarrow> Inr (if b then ''True'' else ''False'')
      | VStr s \<Rightarrow> Inr s
      | VNone \<Rightarrow> Inr ''None''
      | _ \<Rightarrow> host_str H v)"

text \<open>
  The two fields of the calculator that \<^verbatim>\<open>evaluate_expression\<close> reads and writes: the
  pending input and the text on the display. Every exception of the \<^verbatim>\<open>try\<close> block is
  caught (\<^verbatim>\<open>except Exception\<close>): the display shows \<^verbatim>\<open>Error\<close> and the input is cleared.
\<close>

record calculator =
  current_input :: string
  result_var :: string

definition evaluate_expression :: "host \<Rightarrow> calculator \<Rightarrow> calculator" where
  "evaluate_expression H self =
     (case and_then (evaluate H (current_input self)) (py_str H) of
        Inr text \<Rightarrow> self\<lparr>result_var := text, current_input := text\<rparr>
      | Inl e \<Rightarrow> self\<lparr>result_var := ''Error'', current_input := []\<rparr>)"

section \<open>A model of \<^verbatim>\<open>ast.parse\<close> on a fragment of Python's expressions\<close>

text \<open>
  \<^verbatim>\<open>ast.parse\<close> belongs to Python, not to the program, and the theorems about all inputs
  take it from the host. To state examples on input strings, \<open>py_parse\<close> models it on a
  fragment of the expression grammar of Python 3: decimal integer and float literals
  (without underscores), names, \<^verbatim>\<open>True\<close>, \<^verbatim>\<open>False\<close>, \<^verbatim>\<open>None\<close>, plain string literals
  (one line, no backslash, no prefix), the ellipsis, the operators \<^verbatim>\<open>+ - * / // % **\<close>,
  parentheses and tuples, attribute access, and calls with positional, keyword and
  starred arguments. On a string that uses anything else (the other keywords and
  operators, brackets, comments, other characters) \<open>py_parse\<close> answers SyntaxError, which
  is not always what Python does: \<open>py_parse\<close> is used below only at strings of the
  fragment.
\<close>

datatype punct =
    Plus | Minus | Star | Slash | DoubleStar | DoubleSlash | Percent
  | LPar | RPar | Comma | Equal | Dot | Ellipsis

datatype token = TConst pyval | TName string | TString string | TOp punct

definition is_digit :: "char \<Rightarrow> bool" where
  "is_digit c = (c \<in> set ''0123456789'')"

definition is_name_start :: "char \<Rightarrow> bool" where
  "is_name_start c = (c \<in> set ''abcdefghijklmnopqrstuvwxyzABCDEFGHIJKLMNOPQRSTUVWXYZ_'')"

definition is_name_char :: "char \<Rightarrow> bool" where
  "is_name_char c = (is_name_start c \<or> is_digit c)"

definition digit_value :: "char \<Rightarrow> nat" where
  "digit_value c = length (takeWhile (\<lambda>d. d \<noteq> c) ''0123456789'')"

definition digits_value :: "string \<Rightarrow> nat" where
  "digits_value ds = foldl (\<lambda>n c. 10 * n + digit_value c) 0 ds"

definition pow10 :: "int \<Rightarrow> rat" where
  "pow10 k = (if 0 \<le> k then 10 ^ nat k else 1 / 10 ^ nat (- k))"

definition python_keywords :: "string list" where
  "python_keywords =
     [''False'', ''None'', ''True'', ''and'', ''as'', ''assert'', ''async'', ''await'',
      ''break'', ''class'', ''continue'', ''def'', ''del'', ''elif'', ''else'', ''except'',
      ''finally'', ''for'', ''from'', ''global'', ''if'', ''import'', ''in'', ''is'',
      ''lambda'', ''nonlocal'', ''not'', ''or'', ''pass'', ''raise'', ''return'', ''try'',
      ''while'', ''with'', ''yield'']"

definition word_token :: "string \<Rightarrow> token option" where
  "word_token w =
     (if w = ''True'' then Some (TConst (VBool True))
      else if w = ''False'' then Some (TConst (VBool False))
      else if w = ''None'' then Some (TConst VNone)
      else if w \<in> set python_keywords then None
      else Some (TName w))"

text \<open>
  A number literal at the head of the text: the integer part, a fraction after a dot, an
  exponent. A float literal is rounded to the nearest double. A decimal integer other
  than zero has no leading zero, and a literal is not followed by a letter.
\<close>

definition lex_number :: "string \<Rightarrow> (pyval \<times> string) option" where
  "lex_number s =
     (let ip = takeWhile is_digit s;
          r1 = dropWhile is_digit s;
          dot = (r1 \<noteq> [] \<and> hd r1 = CHR ''.'');
          fp = (if dot then takeWhile is_digit (tl r1) else []);
          r2 = (if dot then dropWhile is_digit (tl r1) else r1);
          r3 = (if r2 \<noteq> [] \<and> hd r2 \<in> set ''eE'' then tl r2 else []);
          neg = (r3 \<noteq> [] \<and> hd r3 = CHR ''-'');
          r4 = (if r3 \<noteq> [] \<and> hd r3 \<in> set ''+-'' then tl r3 else r3);
          ed = takeWhile is_digit r4;
          rest = (if ed \<noteq> [] then dropWhile is_digit r4 else r2);
          ex = (if neg then - int (digits_value ed) else int (digits_value ed))
      in if rest \<noteq> [] \<and> is_name_char (hd rest) then None
         else if dot \<or> ed \<noteq> [] then
           Some (VFloat (round_double
                   (of_nat (digits_value (ip @ fp)) * pow10 (ex - int (length fp)))), rest)
         else if 4300 < length ip \<or> (1 < length ip \<and> hd ip = CHR ''0'' \<and> digits_value ip \<noteq> 0)
           then None
         else Some (VInt (int (digits_value ip)), rest))"

text \<open>
  The tokens of a line. The first argument bounds the number of tokens; \<open>py_parse\<close>
  passes more than the text has characters.
\<close>

definition punct_of :: "char \<Rightarrow> punct option" where
  "punct_of c =
     map_of
       [(CHR ''+'', Plus), (CHR ''-'', Minus), (CHR ''*'', Star), (CHR ''/'', Slash),
        (CHR ''%'', Percent), (CHR ''('', LPar), (CHR '')'', RPar), (CHR '','', Comma),
        (CHR ''='', Equal), (CHR ''.'', Dot)] c"

fun lex :: "nat \<Rightarrow> string \<Rightarrow> token list option" where
  "lex 0 s = None"
| "lex (Suc n) [] = Some []"
| "lex (Suc n) (c # cs) =
     (if c = CHR '' '' \<or> c = CHR 0x09 then lex n cs
      else if is_digit c \<or> (c = CHR ''.'' \<and> cs \<noteq> [] \<and> is_digit (hd cs)) then
        (case lex_number (c # cs) of
           None \<Rightarrow> None
         | Some (v, rest) \<Rightarrow> map_option ((#) (TConst v)) (lex n rest))
      else if is_name_start c then
        (let w = takeWhile is_name_char (c # cs);
             rest = dropWhile is_name_char (c # cs)
         in if rest \<noteq> [] \<and> (hd rest = CHR 0x27 \<or> hd rest = CHR 0x22) then None
            else (case word_token w of
                    None \<Rightarrow> None
                  | Some t \<Rightarrow> map_option ((#) t) (lex n rest)))
      else if c = CHR 0x27 \<or> c = CHR 0x22 then
        (let body = takeWhile (\<lambda>d. d \<noteq> c) cs;
             rest = dropWhile (\<lambda>d. d \<noteq> c) cs
         in if rest = [] \<or> CHR 0x5C \<in> set body \<or> CHR 0x0A \<in> set body
               \<or> (body = [] \<and> prefix [c] (tl rest)) then None
            else map_option ((#) (TString body)) (lex n (tl rest)))
      else if c = CHR ''.'' \<and> prefix ''..'' cs then
        map_option ((#) (TOp Ellipsis)) (lex n (drop 2 cs))
      else if c = CHR ''*'' \<and> prefix ''*'' cs then
        map_option ((#) (TOp DoubleStar)) (lex n (tl cs))
      else if c = CHR ''/'' \<and> prefix ''/'' cs then
        map_option ((#) (TOp DoubleSlash)) (lex n (tl cs))
      else (case punct_of c of
              None \<Rightarrow> None
            | Some p \<Rightarrow> map_option ((#) (TOp p)) (lex n cs)))"

text \<open>
  The grammar, one function for each rule of Python's grammar that the fragment keeps:
  \<^verbatim>\<open>sum\<close>, \<^verbatim>\<open>term\<close>, \<^verbatim>\<open>factor\<close>, \<^verbatim>\<open>power\<close>, \<^verbatim>\<open>primary\<close>, \<^verbatim>\<open>atom\<close>, the arguments of a
  call and the elements between parentheses. A function returns the tree and the tokens
  left. The first argument bounds the depth of the recursion.

  In the arguments of a call, a positional argument does not follow a keyword argument
  or a \<^verbatim>\<open>**\<close> argument, and a \<^verbatim>\<open>*\<close> argument does not follow a \<^verbatim>\<open>**\<close> argument. The
  positional and the \<^verbatim>\<open>*\<close> arguments go to \<^verbatim>\<open>args\<close>, the others to \<^verbatim>\<open>keywords\<close>.
\<close>

record call_args =
  positional :: "expr list"
  named :: "(string option \<times> expr) list"
  seen_keyword :: bool
  seen_double_star :: bool

definition string_parts :: "token list \<Rightarrow> string" where
  "string_parts ts = concat (map (\<lambda>t. case t of TString s \<Rightarrow> s | _ \<Rightarrow> []) ts)"

definition is_string_token :: "token \<Rightarrow> bool" where
  "is_string_token t = (case t of TString _ \<Rightarrow> True | _ \<Rightarrow> False)"

definition group_or_tuple :: "expr list \<Rightarrow> bool \<Rightarrow> error + expr" where
  \<comment> \<open>what stands between parentheses: a tuple if there is a comma, else one expression\<close>
  "group_or_tuple es comma =
     (if comma then Inr (Tuple es)
      else (case es of
              [Starred _] \<Rightarrow> Inl SyntaxError
            | [e] \<Rightarrow> Inr e
            | _ \<Rightarrow> Inl SyntaxError))"

datatype goal =
    Sum | SumRest expr | Term | TermRest expr | Factor | Power | PowerRest expr
  | Primary expr | Atom | Args call_args | ArgsSep call_args
  | Elems "expr list" | ElemsSep "expr list"

datatype parsed = PExpr expr | PArgs call_args

definition then_expr ::
  "error + (parsed \<times> token list) \<Rightarrow> (expr \<Rightarrow> token list \<Rightarrow> error + (parsed \<times> token list)) \<Rightarrow>
   error + (parsed \<times> token list)" where
  "then_expr r f =
     (case r of
        Inl e \<Rightarrow> Inl e
      | Inr (PExpr x, ts) \<Rightarrow> f x ts
      | Inr (PArgs _, ts) \<Rightarrow> Inl SyntaxError)"

definition then_args ::
  "error + (parsed \<times> token list) \<Rightarrow> (call_args \<Rightarrow> token list \<Rightarrow> error + (parsed \<times> token list)) \<Rightarrow>
   error + (parsed \<times> token list)" where
  "then_args r f =
     (case r of
        Inl e \<Rightarrow> Inl e
      | Inr (PArgs c, ts) \<Rightarrow> f c ts
      | Inr (PExpr _, ts) \<Rightarrow> Inl SyntaxError)"

definition no_args :: call_args where
  "no_args = \<lparr>positional = [], named = [], seen_keyword = False, seen_double_star = False\<rparr>"

fun parse :: "nat \<Rightarrow> goal \<Rightarrow> token list \<Rightarrow> error + (parsed \<times> token list)" where
  "parse 0 g ts = Inl SyntaxError"
| "parse (Suc n) Sum ts = then_expr (parse n Term ts) (\<lambda>l. parse n (SumRest l))"
| "parse (Suc n) (SumRest l) ts =
     (case ts of
        TOp Plus # r \<Rightarrow> then_expr (parse n Term r) (\<lambda>x. parse n (SumRest (BinOp l Add x)))
      | TOp Minus # r \<Rightarrow> then_expr (parse n Term r) (\<lambda>x. parse n (SumRest (BinOp l Sub x)))
      | _ \<Rightarrow> Inr (PExpr l, ts))"
| "parse (Suc n) Term ts = then_expr (parse n Factor ts) (\<lambda>l. parse n (TermRest l))"
| "parse (Suc n) (TermRest l) ts =
     (case ts of
        TOp Star # r \<Rightarrow>
          then_expr (parse n Factor r) (\<lambda>x. parse n (TermRest (BinOp l Mult x)))
      | TOp Slash # r \<Rightarrow>
          then_expr (parse n Factor r) (\<lambda>x. parse n (TermRest (BinOp l Div x)))
      | TOp DoubleSlash # r \<Rightarrow>
          then_expr (parse n Factor r) (\<lambda>x. parse n (TermRest (BinOp l FloorDiv x)))
      | TOp Percent # r \<Rightarrow>
          then_expr (parse n Factor r) (\<lambda>x. parse n (TermRest (BinOp l Mod x)))
      | _ \<Rightarrow> Inr (PExpr l, ts))"
| "parse (Suc n) Factor ts =
     (case ts of
        TOp Plus # r \<Rightarrow> then_expr (parse n Factor r) (\<lambda>x r'. Inr (PExpr (UnaryOp UAdd x), r'))
      | TOp Minus # r \<Rightarrow> then_expr (parse n Factor r) (\<lambda>x r'. Inr (PExpr (UnaryOp USub x), r'))
      | _ \<Rightarrow> parse n Power ts)"
| "parse (Suc n) Power ts =
     then_expr (parse n Atom ts) (\<lambda>a r.
     then_expr (parse n (Primary a) r) (\<lambda>b. parse n (PowerRest b)))"
| "parse (Suc n) (PowerRest b) ts =
     (case ts of
        TOp DoubleStar # r \<Rightarrow>
          then_expr (parse n Factor r) (\<lambda>x r'. Inr (PExpr (BinOp b Pow_op x), r'))
      | _ \<Rightarrow> Inr (PExpr b, ts))"
| "parse (Suc n) (Primary a) ts =
     (case ts of
        TOp Dot # r \<Rightarrow>
          (case r of
             TName attr # r' \<Rightarrow> parse n (Primary (Attribute a attr)) r'
           | _ \<Rightarrow> Inl SyntaxError)
      | TOp LPar # r \<Rightarrow>
          then_args (parse n (Args no_args) r)
            (\<lambda>c. parse n (Primary (Call a (positional c) (named c))))
      | _ \<Rightarrow> Inr (PExpr a, ts))"
| "parse (Suc n) Atom ts =
     (case ts of
        TConst v # r \<Rightarrow> Inr (PExpr (Constant v), r)
      | TName ident # r \<Rightarrow> Inr (PExpr (Name ident), r)
      | TString s # r \<Rightarrow>
          Inr (PExpr (Constant (VStr (string_parts (takeWhile is_string_token ts)))),
               dropWhile is_string_token ts)
      | TOp Ellipsis # r \<Rightarrow> Inr (PExpr (Constant VEllipsis), r)
      | TOp LPar # r \<Rightarrow>
          (if r \<noteq> [] \<and> hd r = TOp RPar then Inr (PExpr (Tuple []), tl r)
           else parse n (Elems []) r)
      | _ \<Rightarrow> Inl SyntaxError)"
| "parse (Suc n) (Args c) ts =
     (case ts of
        TOp RPar # r \<Rightarrow> Inr (PArgs c, r)
      | TOp Star # r \<Rightarrow>
          if seen_double_star c then Inl SyntaxError
          else then_expr (parse n Sum r) (\<lambda>e.
                 parse n (ArgsSep (c\<lparr>positional := positional c @ [Starred e]\<rparr>)))
      | TOp DoubleStar # r \<Rightarrow>
          then_expr (parse n Sum r) (\<lambda>e.
            parse n (ArgsSep (c\<lparr>named := named c @ [(None, e)], seen_double_star := True\<rparr>)))
      | TName k # r \<Rightarrow>
          if r \<noteq> [] \<and> hd r = TOp Equal then
            then_expr (parse n Sum (tl r)) (\<lambda>e.
              parse n (ArgsSep (c\<lparr>named := named c @ [(Some k, e)], seen_keyword := True\<rparr>)))
          else if seen_keyword c \<or> seen_double_star c then Inl SyntaxError
          else then_expr (parse n Sum ts) (\<lambda>e.
                 parse n (ArgsSep (c\<lparr>positional := positional c @ [e]\<rparr>)))
      | _ \<Rightarrow>
          if seen_keyword c \<or> seen_double_star c then Inl SyntaxError
          else then_expr (parse n Sum ts) (\<lambda>e.
                 parse n (ArgsSep (c\<lparr>positional := positional c @ [e]\<rparr>))))"
| "parse (Suc n) (ArgsSep c) ts =
     (case ts of
        TOp RPar # r \<Rightarrow> Inr (PArgs c, r)
      | TOp Comma # r \<Rightarrow> parse n (Args c) r
      | _ \<Rightarrow> Inl SyntaxError)"
| "parse (Suc n) (Elems acc) ts =
     (case ts of
        TOp Star # r \<Rightarrow>
          then_expr (parse n Sum r) (\<lambda>e. parse n (ElemsSep (acc @ [Starred e])))
      | _ \<Rightarrow> then_expr (parse n Sum ts) (\<lambda>e. parse n (ElemsSep (acc @ [e]))))"
| "parse (Suc n) (ElemsSep acc) ts =
     (case ts of
        TOp RPar # r \<Rightarrow>
          (case group_or_tuple acc (1 < length acc) of
             Inl e \<Rightarrow> Inl e
           | Inr e \<Rightarrow> Inr (PExpr e, r))
      | TOp Comma # r \<Rightarrow>
          (if r \<noteq> [] \<and> hd r = TOp RPar then Inr (PExpr (Tuple acc), tl r)
           else parse n (Elems acc) r)
      | _ \<Rightarrow> Inl SyntaxError)"

text \<open>
  \<^verbatim>\<open>ast.parse(expr, mode='eval').body\<close>: one expression, or expressions separated by
  commas (a tuple), and nothing after. A line that starts with a blank is an indentation
  error.
\<close>

fun p_more :: "nat \<Rightarrow> nat \<Rightarrow> expr list \<Rightarrow> token list \<Rightarrow> error + expr" where
  "p_more 0 d acc ts = Inl SyntaxError"
| "p_more (Suc n) d acc ts =
     (case ts of
        [] \<Rightarrow> Inr (Tuple acc)
      | _ \<Rightarrow>
         (case then_expr (parse d Sum ts) (\<lambda>e r. Inr (PExpr e, r)) of
            Inl e \<Rightarrow> Inl e
          | Inr (PArgs _, r) \<Rightarrow> Inl SyntaxError
          | Inr (PExpr e, r) \<Rightarrow>
              (case r of
                 [] \<Rightarrow> Inr (Tuple (acc @ [e]))
               | TOp Comma # r' \<Rightarrow> p_more n d (acc @ [e]) r'
               | _ \<Rightarrow> Inl SyntaxError)))"

definition p_top :: "nat \<Rightarrow> token list \<Rightarrow> error + expr" where
  "p_top d ts =
     (case parse d Sum ts of
        Inl e \<Rightarrow> Inl e
      | Inr (PArgs _, r) \<Rightarrow> Inl SyntaxError
      | Inr (PExpr e, r) \<Rightarrow>
          (case r of
             [] \<Rightarrow> Inr e
           | TOp Comma # r' \<Rightarrow> p_more (Suc (length r')) d [e] r'
           | _ \<Rightarrow> Inl SyntaxError))"

definition py_parse :: "string \<Rightarrow> error + expr" where
  "py_parse s =
     (if s \<noteq> [] \<and> (hd s = CHR '' '' \<or> hd s = CHR 0x09) then Inl SyntaxError
      else (case lex (Suc (length s)) s of
              None \<Rightarrow> Inl SyntaxError
            | Some ts \<Rightarrow> p_top (10 * length ts + 10) ts))"

section \<open>A host for the examples\<close>

text \<open>
  The theorems below hold for every host. Their closed instances need one: the parser is
  \<open>py_parse\<close>, and the library is a table of what CPython 3.11 (glibc, x86-64) returns
  at the few arguments the instances use; everywhere else it raises TypeError, which no
  instance reaches.

  \<^item> \<^verbatim>\<open>math.radians(1e-09)\<close> is \<^verbatim>\<open>1.7453292519943298e-11\<close>, and \<^verbatim>\<open>math.sin\<close> and
    \<^verbatim>\<open>math.tan\<close> of that are the same double; \<^verbatim>\<open>math.cos\<close> of it is \<^verbatim>\<open>1.0\<close>.
  \<^item> \<^verbatim>\<open>(-8.0) ** 0.5\<close> is the complex number
    \<^verbatim>\<open>(1.7319121124709868e-16+2.8284271247461903j)\<close>.
\<close>

definition tiny_angle :: pyval where
  \<comment> \<open>the double \<^verbatim>\<open>1e-09\<close>\<close>
  "tiny_angle = VFloat (Fin (4835703278458517 / 2 ^ 82))"

definition tiny_radians :: pyval where
  \<comment> \<open>the double \<^verbatim>\<open>1.7453292519943298e-11\<close>\<close>
  "tiny_radians = VFloat (Fin (1350383101737365 / 2 ^ 86))"

definition sample_lib :: "string \<Rightarrow> pyval list \<Rightarrow> error + pyval" where
  "sample_lib name args =
     (if name = ''math.radians'' \<and> args = [tiny_angle] then Inr tiny_radians
      else if name = ''math.sin'' \<and> args = [tiny_radians] then Inr tiny_radians
      else if name = ''math.tan'' \<and> args = [tiny_radians] then Inr tiny_radians
      else if name = ''math.cos'' \<and> args = [tiny_radians] then Inr (VFloat (Fin 1))
      else if name = ''complex.__pow__'' \<and> args = [VFloat (Fin (- 8)), VFloat (Fin (1 / 2))]
        then Inr (VComplex (Fin (7025470172532439 / 2 ^ 105)) (Fin (6369051672525773 / 2 ^ 51)))
      else Inl TypeError)"

definition sample_host :: host where
  "sample_host = \<lparr>ast_parse = py_parse, lib = sample_lib\<rparr>"

section \<open>Properties of the evaluator\<close>

subsection \<open>The tables\<close>

lemma allowed_operators_simps [simp]:
  "ALLOWED_OPERATORS Add = Some Op_add"
  "ALLOWED_OPERATORS Sub = Some Op_sub"
  "ALLOWED_OPERATORS Mult = Some Op_mul"
  "ALLOWED_OPERATORS Div = Some Op_truediv"
  "ALLOWED_OPERATORS Pow_op = Some Op_pow"
  "ALLOWED_OPERATORS Mod = Some Op_mod"
  "ALLOWED_OPERATORS USub = Some Op_neg"
  "ALLOWED_OPERATORS UAdd = Some Op_pos"
  "ALLOWED_OPERATORS FloorDiv = None"
  by (simp_all add: ALLOWED_OPERATORS_def)

lemma allowed_names_examples:
  "ALLOWED_NAMES ''abs'' = Some (VFunc Builtin_abs)"
  "ALLOWED_NAMES ''sqrt'' = Some (VFunc (Math ''sqrt''))"
  "ALLOWED_NAMES ''tan'' = Some (VFunc Tan_deg)"
  "ALLOWED_NAMES ''inf'' = Some (VFloat PInf)"
  "ALLOWED_NAMES ''foo'' = None"
  "ALLOWED_NAMES ''__import__'' = None"
  by code_simp+

lemma and_then_simps [simp]:
  "and_then (Inl e) f = Inl e"
  "and_then (Inr v) f = f v"
  by (simp_all add: and_then_def)

lemma as_num_simps [simp]:
  "as_num (VInt i) = Some (NI i)"
  "as_num (VBool b) = Some (NI (if b then 1 else 0))"
  "as_num (VFloat x) = Some (NF x)"
  "as_num (VComplex re im) = None"
  "as_num (VStr s) = None"
  "as_num (VBytes s) = None"
  "as_num VNone = None"
  "as_num VEllipsis = None"
  "as_num (VFunc f) = None"
  "as_num (VTuple vs) = None"
  by (simp_all add: as_num_def)

lemma int_arith_simps [simp]:
  "py_add H (VInt x) (VInt y) = Inr (VInt (x + y))"
  "py_sub H (VInt x) (VInt y) = Inr (VInt (x - y))"
  "py_mul H (VInt x) (VInt y) = Inr (VInt (x * y))"
  "py_truediv H (VInt x) (VInt y) = int_truediv x y"
  "py_pow H (VInt x) (VInt y) = int_pow H x y"
  "py_neg H (VInt x) = Inr (VInt (- x))"
  "py_pos H (VInt x) = Inr (VInt x)"
  "py_abs H (VInt x) = Inr (VInt \<bar>x\<bar>)"
  by (simp_all add: py_add_def py_sub_def py_mul_def py_truediv_def py_pow_def py_neg_def
        py_pos_def py_abs_def arith_def)

lemma call_operator_simps [simp]:
  "call_operator H Op_add [a, b] = py_add H a b"
  "call_operator H Op_sub [a, b] = py_sub H a b"
  "call_operator H Op_mul [a, b] = py_mul H a b"
  "call_operator H Op_truediv [a, b] = py_truediv H a b"
  "call_operator H Op_pow [a, b] = py_pow H a b"
  "call_operator H Op_mod [a, b] = py_mod H a b"
  "call_operator H Op_neg [a] = py_neg H a"
  "call_operator H Op_pos [a] = py_pos H a"
  by (simp_all add: call_operator_def)

lemma evaluate_parsed:
  "ast_parse H (preprocess s) = Inr t \<Longrightarrow>
   evaluate H s = eval_node H ALLOWED_OPERATORS ALLOWED_NAMES t"
  by (simp add: evaluate_def safe_eval_def)

lemma evaluate_py_parse:
  "py_parse (preprocess s) = Inr t \<Longrightarrow>
   evaluate (H\<lparr>ast_parse := py_parse\<rparr>) s =
   eval_node (H\<lparr>ast_parse := py_parse\<rparr>) ALLOWED_OPERATORS ALLOWED_NAMES t"
  by (simp add: evaluate_def safe_eval_def)

subsection \<open>Arithmetic on input strings\<close>

lemma parse_examples:
  "py_parse (preprocess ''2+3*4'') =
     Inr (BinOp (Constant (VInt 2)) Add (BinOp (Constant (VInt 3)) Mult (Constant (VInt 4))))"
  "py_parse (preprocess ''2^10'') = Inr (BinOp (Constant (VInt 2)) Pow_op (Constant (VInt 10)))"
  "py_parse (preprocess ''(2+3)*4'') =
     Inr (BinOp (BinOp (Constant (VInt 2)) Add (Constant (VInt 3))) Mult (Constant (VInt 4)))"
  "py_parse (preprocess ''50%'') = Inr (BinOp (Constant (VInt 50)) Div (Constant (VInt 100)))"
  by code_simp+

lemma preprocess_examples:
  "preprocess ''2^10'' = ''2**10''"
  "preprocess ''50%'' = ''50/100''"
  by code_simp+

lemma fifty_over_hundred: "int_truediv 50 100 = Inr (VFloat (Fin (1 / 2)))"
  by code_simp

text \<open>
  Claim C3. Evaluation respects precedence and parentheses, and the caret is rewritten to
  the power operator before parsing: with the parser \<open>py_parse\<close> and any library,
  \<^verbatim>\<open>2+3*4\<close> evaluates to the integer 14, \<^verbatim>\<open>2^10\<close> (rewritten to \<^verbatim>\<open>2**10\<close>) to 1024 and
  \<^verbatim>\<open>(2+3)*4\<close> to 20.
\<close>

theorem arithmetic_examples:
  "evaluate (H\<lparr>ast_parse := py_parse\<rparr>) ''2+3*4'' = Inr (VInt 14) \<and>
   evaluate (H\<lparr>ast_parse := py_parse\<rparr>) ''2^10'' = Inr (VInt 1024) \<and>
   evaluate (H\<lparr>ast_parse := py_parse\<rparr>) ''(2+3)*4'' = Inr (VInt 20) \<and>
   preprocess ''2^10'' = ''2**10''"
  by (simp add: evaluate_py_parse [OF parse_examples(1)] evaluate_py_parse [OF parse_examples(2)]
        evaluate_py_parse [OF parse_examples(3)] preprocess_examples int_pow_def)

text \<open>
  Claim C8. A percent sign is replaced by a division by one hundred before parsing:
  \<^verbatim>\<open>50%\<close> becomes \<^verbatim>\<open>50/100\<close>, and evaluates to the float 0.5.
\<close>

theorem percent_example:
  "preprocess ''50%'' = ''50/100'' \<and>
   evaluate (H\<lparr>ast_parse := py_parse\<rparr>) ''50%'' = Inr (VFloat (Fin (1 / 2)))"
  by (simp add: evaluate_py_parse [OF parse_examples(4)] preprocess_examples fifty_over_hundred)

subsection \<open>Names and literals\<close>

definition quoted :: "string \<Rightarrow> string" where
  \<comment> \<open>a string literal in single quotes\<close>
  "quoted s = CHR 0x27 # s @ [CHR 0x27]"

lemma sample_host_simps [simp]:
  "ast_parse sample_host = py_parse"
  "lib sample_host = sample_lib"
  by (simp_all add: sample_host_def)

lemma parse_names:
  "py_parse (preprocess ''sqrt'') = Inr (Name ''sqrt'')"
  "py_parse (preprocess ''tan'') = Inr (Name ''tan'')"
  "py_parse (preprocess ''foo'') = Inr (Name ''foo'')"
  "py_parse (preprocess (''foo'' @ ''(1)'')) = Inr (Call (Name ''foo'') [Constant (VInt 1)] [])"
  by code_simp+

lemma parse_literals:
  "py_parse (preprocess (quoted ''abc'')) = Inr (Constant (VStr ''abc''))"
  "py_parse (preprocess ''True'') = Inr (Constant (VBool True))"
  "py_parse (preprocess ''None'') = Inr (Constant VNone)"
  by code_simp+

text \<open>
  Claim C6, as the code has it. A bare name evaluates to its entry in the registry,
  whatever the entry is, a float constant or a function; it fails only when the name is
  not in the registry. The claim says that a name bound to a function fails: the input
  \<^verbatim>\<open>sqrt\<close> evaluates to the function \<^verbatim>\<open>math.sqrt\<close>.
\<close>

theorem bare_name_is_registry_entry:
  assumes "ast_parse H (preprocess s) = Inr (Name ident)"
  shows "evaluate H s =
           (case ALLOWED_NAMES ident of
              Some v \<Rightarrow> Inr v
            | None \<Rightarrow> Inl (ValueError ''Unsupported expression''))"
  using assms by (simp add: evaluate_def safe_eval_def)

theorem bare_name_is_registry_entry_witness:
  "ast_parse sample_host (preprocess ''tan'') = Inr (Name ''tan'') \<and>
   evaluate sample_host ''tan'' = Inr (VFunc Tan_deg)"
  using bare_name_is_registry_entry [of sample_host "''tan''" "''tan''"]
  by (simp add: allowed_names_examples parse_names)

theorem bare_function_name_counterexample:
  "evaluate sample_host ''sqrt'' = Inr (VFunc (Math ''sqrt''))"
  by (simp add: evaluate_def safe_eval_def allowed_names_examples parse_names)

text \<open>
  Claim C7, as the code has it. A literal evaluates to its value, whatever its type:
  \<^verbatim>\<open>_eval\<close> returns \<^verbatim>\<open>node.value\<close> of a \<^verbatim>\<open>Constant\<close> without looking at it. The claim says
  that a literal that is not a number is rejected: the input \<^verbatim>\<open>'abc'\<close> evaluates to the
  string \<^verbatim>\<open>abc\<close> and the input \<^verbatim>\<open>True\<close> to the boolean.
\<close>

theorem literal_evaluates_to_its_value:
  assumes "ast_parse H (preprocess s) = Inr (Constant v)"
  shows "evaluate H s = Inr v"
  using assms by (simp add: evaluate_def safe_eval_def)

theorem literal_evaluates_to_its_value_witness:
  "ast_parse sample_host (preprocess ''None'') = Inr (Constant VNone) \<and>
   evaluate sample_host ''None'' = Inr VNone"
  using literal_evaluates_to_its_value [of sample_host "''None''" VNone]
  by (simp add: parse_literals)

theorem non_numeric_literal_counterexample:
  "evaluate sample_host (quoted ''abc'') = Inr (VStr ''abc'') \<and>
   evaluate sample_host ''True'' = Inr (VBool True)"
  by (simp add: evaluate_def safe_eval_def parse_literals)

subsection \<open>What is outside the allow-list\<close>

text \<open>
  The allow-list of \<^verbatim>\<open>_eval\<close>, as a predicate on trees: constants, binary and unary
  operations whose operator is a key of the table, calls of a name of the registry, and
  names of the registry, with every operand and positional argument allow-listed too.
  The keyword arguments of a call are not looked at, as in the source.
\<close>

fun allow_listed :: "(op_class \<rightharpoonup> op_fn) \<Rightarrow> (string \<rightharpoonup> pyval) \<Rightarrow> expr \<Rightarrow> bool"
  and all_allow_listed :: "(op_class \<rightharpoonup> op_fn) \<Rightarrow> (string \<rightharpoonup> pyval) \<Rightarrow> expr list \<Rightarrow> bool"
where
  "allow_listed ops names (Constant v) = True"
| "allow_listed ops names (BinOp left op right) =
     (ops op \<noteq> None \<and> allow_listed ops names left \<and> allow_listed ops names right)"
| "allow_listed ops names (UnaryOp op operand) =
     (ops op \<noteq> None \<and> allow_listed ops names operand)"
| "allow_listed ops names (Call func args keywords) =
     ((case func of Name fid \<Rightarrow> names fid \<noteq> None | _ \<Rightarrow> False) \<and>
      all_allow_listed ops names args)"
| "allow_listed ops names (Name ident) = (names ident \<noteq> None)"
| "allow_listed ops names (Attribute _ _) = False"
| "allow_listed ops names (Subscript _ _) = False"
| "allow_listed ops names (Starred _) = False"
| "allow_listed ops names (Tuple _) = False"
| "allow_listed ops names (NamedExpr _ _) = False"
| "allow_listed ops names (OtherNode _ _) = False"
| "all_allow_listed ops names [] = True"
| "all_allow_listed ops names (a # rest) =
     (allow_listed ops names a \<and> all_allow_listed ops names rest)"

lemma value_only_if_allow_listed:
  "eval_node H ops names t = Inr v \<Longrightarrow> allow_listed ops names t"
  "eval_args H ops names ts = Inr vs \<Longrightarrow> all_allow_listed ops names ts"
proof (induction H ops names t and H ops names ts arbitrary: v and vs
    rule: eval_node_eval_args.induct)
  case (2 H ops names left op right)
  then show ?case
    by (auto split: option.splits sum.splits)
next
  case (3 H ops names op operand)
  then show ?case
    by (auto split: option.splits sum.splits)
next
  case (4 H ops names func args kws)
  then show ?case
    by (auto split: expr.splits option.splits sum.splits)
next
  case (13 H ops names a rest)
  then show ?case
    by (auto split: sum.splits)
qed (auto split: option.splits)

lemma disallowed_node_fails:
  "\<not> allow_listed ops names t \<Longrightarrow> isl (eval_node H ops names t)"
  using value_only_if_allow_listed(1) [of H ops names t]
  by (cases "eval_node H ops names t") auto

definition keyword_example :: string where
  \<comment> \<open>the text \<^verbatim>\<open>abs(-1, x=__import__('os'))\<close>\<close>
  "keyword_example = ''abs(-1, x=__import__('' @ quoted ''os'' @ ''))''"

lemma parse_keyword_example:
  "py_parse (preprocess keyword_example) =
     Inr (Call (Name ''abs'') [UnaryOp USub (Constant (VInt 1))]
            [(Some ''x'', Call (Name ''__import__'') [Constant (VStr ''os'')] [])])"
  by code_simp

text \<open>
  Claim C1 at the input \<^verbatim>\<open>abs(-1, x=__import__('os'))\<close>. The parse holds a call whose
  target is not in the registry, inside a keyword argument. \<^verbatim>\<open>_eval\<close> never reads the
  keyword arguments of a call: the construct is not executed, but it is not rejected
  either, and the evaluation returns 1.
\<close>

theorem keyword_arguments_ignored:
  "evaluate (H\<lparr>ast_parse := py_parse\<rparr>) keyword_example = Inr (VInt 1)"
  by (simp add: evaluate_py_parse [OF parse_keyword_example] allowed_names_examples
        call_value_def)

subsection \<open>Names outside the registry\<close>

text \<open>
  The names that \<^verbatim>\<open>_eval\<close> looks up in the registry when it evaluates a tree: the bare
  names and the targets of calls, in the operands of operations and the positional
  arguments of calls.
\<close>

fun names_used :: "expr \<Rightarrow> string list" where
  "names_used (Constant v) = []"
| "names_used (BinOp left op right) = names_used left @ names_used right"
| "names_used (UnaryOp op operand) = names_used operand"
| "names_used (Call func args kws) =
     (case func of Name fid \<Rightarrow> [fid] | _ \<Rightarrow> []) @ concat (map names_used args)"
| "names_used (Name ident) = [ident]"
| "names_used (Attribute e attr) = []"
| "names_used (Subscript e i) = []"
| "names_used (Starred e) = []"
| "names_used (Tuple es) = []"
| "names_used (NamedExpr target e) = []"
| "names_used (OtherNode kind es) = []"

text \<open>
  CPython normalises the identifiers of the source to NFKC before it builds the tree: the
  fullwidth letters a, b, s (U+FF41, U+FF42, U+FF53) are read as the name \<^verbatim>\<open>abs\<close>.
  \<open>py_parse\<close> reads ASCII only; \<open>nfkc_parse\<close> adds what \<^verbatim>\<open>ast.parse\<close> answers at the two
  strings of the example below.
\<close>

definition fullwidth_abs :: string where
  "fullwidth_abs =
     [CHR 0xEF, CHR 0xBD, CHR 0x81, CHR 0xEF, CHR 0xBD, CHR 0x82, CHR 0xEF, CHR 0xBD, CHR 0x93]"

definition nfkc_parse :: "string \<Rightarrow> error + expr" where
  "nfkc_parse s =
     (if s = fullwidth_abs then Inr (Name ''abs'')
      else if s = fullwidth_abs @ ''(1)'' then Inr (Call (Name ''abs'') [Constant (VInt 1)] [])
      else py_parse s)"

definition nfkc_host :: host where
  "nfkc_host = \<lparr>ast_parse = nfkc_parse, lib = sample_lib\<rparr>"

lemma unknown_name_not_allow_listed:
  "ident \<in> set (names_used t) \<Longrightarrow> names ident = None \<Longrightarrow> \<not> allow_listed ops names t"
  "ident \<in> set (concat (map names_used ts)) \<Longrightarrow> names ident = None \<Longrightarrow>
     \<not> all_allow_listed ops names ts"
  by (induction ops names t and ops names ts rule: allow_listed_all_allow_listed.induct)
     (auto split: expr.splits)

lemma unknown_name_fails:
  "ident \<in> set (names_used t) \<Longrightarrow> names ident = None \<Longrightarrow> isl (eval_node H ops names t)"
  using unknown_name_not_allow_listed(1) disallowed_node_fails by blast

lemma parse_unknown_names:
  "py_parse (preprocess ''foo'') = Inr (Name ''foo'')"
  "py_parse (preprocess ''foo(1)'') = Inr (Call (Name ''foo'') [Constant (VInt 1)] [])"
  "py_parse (preprocess ''abs(foo)'') = Inr (Call (Name ''abs'') [Name ''foo''] [])"
  "py_parse (preprocess ''2*foo(1)'') =
     Inr (BinOp (Constant (VInt 2)) Mult (Call (Name ''foo'') [Constant (VInt 1)] []))"
  by code_simp+

lemma fullwidth_examples:
  "ALLOWED_NAMES fullwidth_abs = None"
  "preprocess fullwidth_abs = fullwidth_abs"
  "preprocess (fullwidth_abs @ ''(1)'') = fullwidth_abs @ ''(1)''"
  by code_simp+

lemma nfkc_parse_examples:
  "ast_parse nfkc_host fullwidth_abs = Inr (Name ''abs'')"
  "ast_parse nfkc_host (fullwidth_abs @ ''(1)'') = Inr (Call (Name ''abs'') [Constant (VInt 1)] [])"
  by (simp_all add: nfkc_host_def nfkc_parse_def)

text \<open>
  Claim C4, as the code has it. The registry is asked for the identifier of the tree
  (\<^verbatim>\<open>node.id\<close>, \<^verbatim>\<open>node.func.id\<close>), which is what the parser made of the text, not the text.
  For every identifier that is not a key of \<^verbatim>\<open>ALLOWED_NAMES\<close>: an input that the parser
  reads as a call of that name, whatever the arguments, raises ValueError (invalid
  function); an input that it reads as that bare name raises ValueError (unsupported
  expression); and an input whose tree uses that name anywhere \<^verbatim>\<open>_eval\<close> looks names up
  fails. The claim speaks of the identifier in the text: the fullwidth letters a, b, s
  are not a key of the registry, and CPython reads them as the name \<^verbatim>\<open>abs\<close>, so that both
  inputs of the claim return a value.
\<close>

theorem unregistered_name_fails:
  assumes "ALLOWED_NAMES ident = None"
    and "ast_parse H (preprocess s') = Inr (Call (Name ident) args kws)"
    and "ast_parse H (preprocess s) = Inr (Name ident)"
    and "ast_parse H (preprocess s'') = Inr t"
    and "ident \<in> set (names_used t)"
  shows "evaluate H s' = Inl (ValueError ''Invalid function'') \<and>
         evaluate H s = Inl (ValueError ''Unsupported expression'') \<and>
         isl (evaluate H s'')"
  using assms unknown_name_fails [of ident t ALLOWED_NAMES H ALLOWED_OPERATORS]
  by (simp add: evaluate_def safe_eval_def)

theorem unregistered_name_fails_witness:
  "ALLOWED_NAMES ''foo'' = None \<and>
   ast_parse sample_host (preprocess ''foo(1)'') =
     Inr (Call (Name ''foo'') [Constant (VInt 1)] []) \<and>
   ast_parse sample_host (preprocess ''foo'') = Inr (Name ''foo'') \<and>
   ast_parse sample_host (preprocess ''abs(foo)'') = Inr (Call (Name ''abs'') [Name ''foo''] []) \<and>
   ''foo'' \<in> set (names_used (Call (Name ''abs'') [Name ''foo''] [])) \<and>
   evaluate sample_host ''foo(1)'' = Inl (ValueError ''Invalid function'') \<and>
   evaluate sample_host ''foo'' = Inl (ValueError ''Unsupported expression'') \<and>
   isl (evaluate sample_host ''abs(foo)'')"
  using unregistered_name_fails
    [of "''foo''" sample_host "''foo(1)''" "[Constant (VInt 1)]" "[]" "''foo''"
        "''abs(foo)''" "Call (Name ''abs'') [Name ''foo''] []"]
  by (simp add: allowed_names_examples parse_unknown_names)

theorem normalised_identifier_counterexample:
  "ALLOWED_NAMES fullwidth_abs = None \<and>
   evaluate nfkc_host (fullwidth_abs @ ''(1)'') = Inr (VInt 1) \<and>
   evaluate nfkc_host fullwidth_abs = Inr (VFunc Builtin_abs)"
  by (simp add: evaluate_def safe_eval_def fullwidth_examples nfkc_parse_examples
        allowed_names_examples call_value_def)

subsection \<open>Division by zero and domain errors\<close>















subsection \<open>Snapping small results to zero\<close>

text \<open>
  A second instance of the library, for the cosine: \<^verbatim>\<open>math.radians(90)\<close> is the double
  \<^verbatim>\<open>1.5707963267948966\<close>, and \<^verbatim>\<open>math.cos\<close> of it is \<^verbatim>\<open>6.123233995736766e-17\<close>.
\<close>

definition quarter_turn :: pyval where
  \<comment> \<open>the double \<^verbatim>\<open>1.5707963267948966\<close>\<close>
  "quarter_turn = VFloat (Fin (884279719003555 / 2 ^ 49))"

definition cos_quarter_turn :: rat where
  \<comment> \<open>the double \<^verbatim>\<open>6.123233995736766e-17\<close>\<close>
  "cos_quarter_turn = 4967757600021511 / 2 ^ 106"

definition trig_lib :: "string \<Rightarrow> pyval list \<Rightarrow> error + pyval" where
  "trig_lib name args =
     (if name = ''math.radians'' \<and> args = [VInt 90] then Inr quarter_turn
      else if name = ''math.cos'' \<and> args = [quarter_turn] then Inr (VFloat (Fin cos_quarter_turn))
      else sample_lib name args)"

definition trig_host :: host where
  "trig_host = \<lparr>ast_parse = py_parse, lib = trig_lib\<rparr>"

lemma round_small_float:
  "round_small H (VFloat (Fin q)) = Inr (if \<bar>q\<bar> < eps then VInt 0 else VFloat (Fin q))"
  by (simp add: round_small_def py_abs_def fabs_def lt_float_def)

lemma eps_above_exact: "1 / 10 ^ 10 < eps"
  by (simp add: eps_def field_simps)

lemma trig_lib_examples:
  "lib trig_host ''math.radians'' [tiny_angle] = Inr tiny_radians"
  "lib trig_host ''math.sin'' [tiny_radians] = Inr (VFloat (Fin (1350383101737365 / 2 ^ 86)))"
  "lib trig_host ''math.tan'' [tiny_radians] = Inr (VFloat (Fin (1350383101737365 / 2 ^ 86)))"
  "lib trig_host ''math.radians'' [VInt 90] = Inr quarter_turn"
  "lib trig_host ''math.cos'' [quarter_turn] = Inr (VFloat (Fin cos_quarter_turn))"
  by (simp_all add: trig_host_def trig_lib_def sample_lib_def tiny_angle_def tiny_radians_def
        quarter_turn_def)

lemma small_examples:
  "\<bar>1350383101737365 / 2 ^ 86 :: rat\<bar> < eps"
  "\<bar>cos_quarter_turn\<bar> < eps"
  "(1350383101737365 / 2 ^ 86 :: rat) \<noteq> 0"
  "cos_quarter_turn \<noteq> 0"
  by (simp_all add: eps_def cos_quarter_turn_def field_simps)

text \<open>
  Claim C10. The snap to zero is decided by the computed value alone. Whatever the
  library computes for the sine of the radians of \<open>x\<close>, when it is a finite float \<open>s\<close> the
  function \<^verbatim>\<open>sin_deg\<close> returns the integer 0 if the magnitude of \<open>s\<close> is below the default
  \<^verbatim>\<open>eps\<close>, and \<open>s\<close> itself otherwise; the exact sine plays no part. The same holds for
  \<^verbatim>\<open>cos_deg\<close> and \<^verbatim>\<open>tan_deg\<close>. The default \<^verbatim>\<open>eps\<close>, the double \<^verbatim>\<open>1e-10\<close>, lies above
  \<open>10\<^sup>-\<^sup>1\<^sup>0\<close>, so every computed value of magnitude below \<open>10\<^sup>-\<^sup>1\<^sup>0\<close> is snapped.
\<close>

theorem snap_decided_by_computed_value:
  assumes "lib H ''math.radians'' [xs] = Inr rs"
    and "lib H ''math.sin'' [rs] = Inr (VFloat (Fin s))"
    and "lib H ''math.radians'' [xc] = Inr rc"
    and "lib H ''math.cos'' [rc] = Inr (VFloat (Fin c))"
    and "lib H ''math.radians'' [xt] = Inr rt"
    and "lib H ''math.tan'' [rt] = Inr (VFloat (Fin t))"
  shows "sin_deg H xs = Inr (if \<bar>s\<bar> < eps then VInt 0 else VFloat (Fin s)) \<and>
         cos_deg H xc = Inr (if \<bar>c\<bar> < eps then VInt 0 else VFloat (Fin c)) \<and>
         tan_deg H xt = Inr (if \<bar>t\<bar> < eps then VInt 0 else VFloat (Fin t)) \<and>
         1 / 10 ^ 10 < eps"
  using assms eps_above_exact
  by (simp add: sin_deg_def cos_deg_def tan_deg_def round_small_float)

theorem snap_decided_by_computed_value_witness:
  "lib trig_host ''math.radians'' [tiny_angle] = Inr tiny_radians \<and>
   lib trig_host ''math.sin'' [tiny_radians] = Inr (VFloat (Fin (1350383101737365 / 2 ^ 86))) \<and>
   lib trig_host ''math.radians'' [VInt 90] = Inr quarter_turn \<and>
   lib trig_host ''math.cos'' [quarter_turn] = Inr (VFloat (Fin cos_quarter_turn)) \<and>
   lib trig_host ''math.tan'' [tiny_radians] = Inr (VFloat (Fin (1350383101737365 / 2 ^ 86))) \<and>
   (1350383101737365 / 2 ^ 86 :: rat) \<noteq> 0 \<and> cos_quarter_turn \<noteq> 0 \<and>
   sin_deg trig_host tiny_angle = Inr (VInt 0) \<and>
   cos_deg trig_host (VInt 90) = Inr (VInt 0) \<and>
   tan_deg trig_host tiny_angle = Inr (VInt 0)"
  using snap_decided_by_computed_value
    [of trig_host tiny_angle tiny_radians "1350383101737365 / 2 ^ 86"
        "VInt 90" quarter_turn cos_quarter_turn
        tiny_angle tiny_radians "1350383101737365 / 2 ^ 86"]
  by (simp only: trig_lib_examples small_examples simp_thms if_True)

end
